theory Spec2Isabelle
  imports Complex_Main "HOL-Library.Multiset" "HOL-Library.Word"
begin

section \<open>JavaScript values\<close>

text \<open>
  The filter handlers of \<^verbatim>\<open>base-mixin.ts\<close> are untyped: a filter is \<^verbatim>\<open>any\<close> value, told
  apart at run time by \<^verbatim>\<open>=== null\<close>, \<^verbatim>\<open>typeof ... === 'undefined'\<close>, \<^verbatim>\<open>instanceof Array\<close>,
  by the properties \<^verbatim>\<open>isFiltered\<close> and \<^verbatim>\<open>filterType\<close> that dc's filter objects carry
  ("a method blessed onto an Array"), and compared with \<^verbatim>\<open><=\<close> and \<^verbatim>\<open>>=\<close>.

  The values modelled are \<^verbatim>\<open>undefined\<close>, \<^verbatim>\<open>null\<close>, numbers, strings and arrays. A number
  is \<^verbatim>\<open>NaN\<close> or an integer of 54 bits in two's complement, from \<^verbatim>\<open>-2^53\<close> to \<^verbatim>\<open>2^53 - 1\<close>:
  each of these is a double and is printed in decimal. A string is a list of code units
  below 256. Every array carries an annotation \<open>'b\<close>: it is
  \<open>unit\<close> for plain data (the values of a crossfilter dimension) and a pair of optional
  properties (\<^verbatim>\<open>isFiltered\<close>, \<^verbatim>\<open>filterType\<close>) for the values handed to a chart.
  Booleans, dates, plain objects, the other numbers and the other code units are not
  part of the model.
\<close>

datatype jsnum = NaN | Fin "54 word"

datatype 'b val =
    JUndefined
  | JNull
  | JNum jsnum
  | JStr string
  | JArr "'b val list" 'b

type_synonym datum = "unit val"

type_synonym blessing = "(datum \<Rightarrow> bool) option \<times> string option"

type_synonym jsval = "blessing val"


definition of_datum :: "datum \<Rightarrow> jsval" where
  "of_datum = map_val (\<lambda>_. (None, None))"

subsection \<open>ToString\<close>

text \<open>
  An integer is printed in decimal, as the language prints the integers below \<^verbatim>\<open>1e21\<close> in
  magnitude, which those of 54 bits are.
\<close>

fun digit_char :: "nat \<Rightarrow> char" where
  "digit_char n = char_of (48 + n)"

fun nat_to_string :: "nat \<Rightarrow> string" where
  "nat_to_string n = (if n < 10 then [digit_char n]
     else nat_to_string (n div 10) @ [digit_char (n mod 10)])"

declare nat_to_string.simps [simp del]

definition int_to_string :: "int \<Rightarrow> string" where
  "int_to_string i = (if i < 0 then CHR ''-'' # nat_to_string (nat (- i)) else nat_to_string (nat i))"

fun num_to_string :: "jsnum \<Rightarrow> string" where
  "num_to_string NaN = ''NaN''"
| "num_to_string (Fin i) = int_to_string (sint i)"

fun join :: "string list \<Rightarrow> string" where
  "join [] = []"
| "join [s] = s"
| "join (s # t # ss) = s @ '','' @ join (t # ss)"

text \<open>
  \<^verbatim>\<open>Array.prototype.toString\<close> is \<^verbatim>\<open>join(',')\<close>: \<^verbatim>\<open>undefined\<close> and \<^verbatim>\<open>null\<close> elements give the
  empty string, every other element its own string.
\<close>

fun to_string :: "'b val \<Rightarrow> string" where
  "to_string JUndefined = ''undefined''"
| "to_string JNull = ''null''"
| "to_string (JNum n) = num_to_string n"
| "to_string (JStr s) = s"
| "to_string (JArr xs b) =
     join (map (\<lambda>x. case x of JUndefined \<Rightarrow> [] | JNull \<Rightarrow> [] | _ \<Rightarrow> to_string x) xs)"

subsection \<open>ToNumber\<close>

text \<open>
  The result of \<^verbatim>\<open>ToNumber\<close>: a numeric string may denote a fraction or an infinity, so
  the results are \<^verbatim>\<open>NaN\<close>, the infinities and the rationals. A decimal literal is given
  its exact value (the language rounds it to the nearest double).
\<close>

datatype xnum = XNaN | XNegInf | XFin rat | XPosInf

definition is_ws :: "char \<Rightarrow> bool" where
  "is_ws c = (of_char c \<in> {9, 10, 11, 12, 13, 32, 160 :: nat})"

definition trim :: "string \<Rightarrow> string" where
  "trim s = rev (dropWhile is_ws (rev (dropWhile is_ws s)))"

definition digit_of :: "nat \<Rightarrow> char \<Rightarrow> nat option" where
  "digit_of base c =
     (let n = (of_char c :: nat);
          d = (if 48 \<le> n \<and> n \<le> 57 then Some (n - 48)
               else if 97 \<le> n \<and> n \<le> 102 then Some (n - 87)
               else if 65 \<le> n \<and> n \<le> 70 then Some (n - 55)
               else None)
      in case d of None \<Rightarrow> None | Some v \<Rightarrow> if v < base then Some v else None)"

fun digits_from :: "nat \<Rightarrow> nat \<Rightarrow> string \<Rightarrow> nat option" where
  "digits_from base acc [] = Some acc"
| "digits_from base acc (c # cs) =
     (case digit_of base c of None \<Rightarrow> None | Some d \<Rightarrow> digits_from base (acc * base + d) cs)"

text \<open>A possibly empty run of digits; \<open>digits1\<close> wants at least one.\<close>

definition digits0 :: "nat \<Rightarrow> string \<Rightarrow> nat option" where
  "digits0 base s = digits_from base 0 s"

definition digits1 :: "nat \<Rightarrow> string \<Rightarrow> nat option" where
  "digits1 base s = (if s = [] then None else digits_from base 0 s)"

definition is_exp_char :: "char \<Rightarrow> bool" where
  "is_exp_char c = (c = CHR ''e'' \<or> c = CHR ''E'')"

definition parse_exponent :: "string \<Rightarrow> int option" where
  "parse_exponent s =
     (case s of
        [] \<Rightarrow> Some 0
      | e # rest \<Rightarrow>
          (case rest of
             c # ds \<Rightarrow>
               if c = CHR ''-'' then map_option (\<lambda>n. - int n) (digits1 10 ds)
               else if c = CHR ''+'' then map_option int (digits1 10 ds)
               else map_option int (digits1 10 rest)
           | [] \<Rightarrow> None))"

definition pow10 :: "int \<Rightarrow> rat" where
  "pow10 e = (if e < 0 then 1 / (10 ^ nat (- e)) else 10 ^ nat e)"

text \<open>
  An unsigned decimal literal: digits with an optional fraction and an optional
  exponent; at least one digit before or after the point.
\<close>

definition parse_unsigned_decimal :: "string \<Rightarrow> rat option" where
  "parse_unsigned_decimal s =
     (let mant = takeWhile (\<lambda>c. \<not> is_exp_char c) s;
          ex = dropWhile (\<lambda>c. \<not> is_exp_char c) s;
          ip = takeWhile (\<lambda>c. c \<noteq> CHR ''.'') mant;
          fp = drop 1 (dropWhile (\<lambda>c. c \<noteq> CHR ''.'') mant)
      in if ip = [] \<and> fp = [] then None
         else case (digits0 10 ip, digits0 10 fp, parse_exponent ex) of
           (Some i, Some f, Some e) \<Rightarrow>
              Some ((of_nat i + of_nat f / 10 ^ length fp) * pow10 e)
         | _ \<Rightarrow> None)"

definition parse_decimal :: "string \<Rightarrow> xnum" where
  "parse_decimal s =
     (let neg = (s \<noteq> [] \<and> hd s = CHR ''-'');
          body = (if s \<noteq> [] \<and> (hd s = CHR ''-'' \<or> hd s = CHR ''+'') then tl s else s)
      in if body = ''Infinity'' then (if neg then XNegInf else XPosInf)
         else case parse_unsigned_decimal body of
           None \<Rightarrow> XNaN
         | Some q \<Rightarrow> XFin (if neg then - q else q))"

definition parse_radix :: "string \<Rightarrow> xnum option" where
  "parse_radix s =
     (case s of
        z # p # ds \<Rightarrow>
          if z \<noteq> CHR ''0'' then None
          else if p = CHR ''x'' \<or> p = CHR ''X'' then
            Some (case digits1 16 ds of None \<Rightarrow> XNaN | Some n \<Rightarrow> XFin (of_nat n))
          else if p = CHR ''o'' \<or> p = CHR ''O'' then
            Some (case digits1 8 ds of None \<Rightarrow> XNaN | Some n \<Rightarrow> XFin (of_nat n))
          else if p = CHR ''b'' \<or> p = CHR ''B'' then
            Some (case digits1 2 ds of None \<Rightarrow> XNaN | Some n \<Rightarrow> XFin (of_nat n))
          else None
      | _ \<Rightarrow> None)"

definition string_to_number :: "string \<Rightarrow> xnum" where
  "string_to_number s =
     (let t = trim s
      in if t = [] then XFin 0
         else case parse_radix t of Some r \<Rightarrow> r | None \<Rightarrow> parse_decimal t)"

fun to_number :: "'b val \<Rightarrow> xnum" where
  "to_number JUndefined = XNaN"
| "to_number JNull = XFin 0"
| "to_number (JNum NaN) = XNaN"
| "to_number (JNum (Fin i)) = XFin (of_int (sint i))"
| "to_number (JStr s) = string_to_number s"
| "to_number (JArr xs b) = string_to_number (to_string (JArr xs b))"

subsection \<open>Relational comparison\<close>

text \<open>
  The abstract relational comparison \<open>x < y\<close> of the language: both operands are made
  primitive (an array becomes its string); two strings are compared by code units, any
  other pair as numbers, and the result is undefined (\<open>None\<close>) when either is \<^verbatim>\<open>NaN\<close>.
\<close>

fun to_primitive :: "'b val \<Rightarrow> 'b val" where
  "to_primitive (JArr xs b) = JStr (to_string (JArr xs b))"
| "to_primitive v = v"

fun string_less :: "string \<Rightarrow> string \<Rightarrow> bool" where
  "string_less [] [] = False"
| "string_less [] (d # ds) = True"
| "string_less (c # cs) [] = False"
| "string_less (c # cs) (d # ds) =
     (if (of_char c :: nat) < of_char d then True
      else if (of_char d :: nat) < of_char c then False
      else string_less cs ds)"

fun xnum_less :: "xnum \<Rightarrow> xnum \<Rightarrow> bool option" where
  "xnum_less XNaN _ = None"
| "xnum_less _ XNaN = None"
| "xnum_less XNegInf XNegInf = Some False"
| "xnum_less XNegInf _ = Some True"
| "xnum_less _ XNegInf = Some False"
| "xnum_less XPosInf _ = Some False"
| "xnum_less _ XPosInf = Some True"
| "xnum_less (XFin a) (XFin b) = Some (a < b)"

definition compare_less :: "'b val \<Rightarrow> 'b val \<Rightarrow> bool option" where
  "compare_less x y =
     (case (to_primitive x, to_primitive y) of
        (JStr a, JStr b) \<Rightarrow> Some (string_less a b)
      | (px, py) \<Rightarrow> xnum_less (to_number px) (to_number py))"

text \<open>
  \<^verbatim>\<open>a < b\<close> holds when the comparison of \<open>a\<close> with \<open>b\<close> is true; \<^verbatim>\<open>a <= b\<close> holds when
  the comparison of \<open>b\<close> with \<open>a\<close> is false (neither true nor undefined). \<^verbatim>\<open>a >= b\<close> is
  the comparison of \<open>a\<close> with \<open>b\<close> being false, which is \<^verbatim>\<open>b <= a\<close>: the two differ
  only in the order in which the operands are evaluated.
\<close>

instantiation val :: (type) ord
begin

definition less_val :: "'a val \<Rightarrow> 'a val \<Rightarrow> bool" where
  "less_val a b = (compare_less a b = Some True)"

definition less_eq_val :: "'a val \<Rightarrow> 'a val \<Rightarrow> bool" where
  "less_eq_val a b = (compare_less b a = Some False)"

instance ..

end

definition truthy :: "'b val \<Rightarrow> bool" where
  "truthy v = (case v of
      JUndefined \<Rightarrow> False
    | JNull \<Rightarrow> False
    | JNum NaN \<Rightarrow> False
    | JNum (Fin i) \<Rightarrow> i \<noteq> 0
    | JStr s \<Rightarrow> s \<noteq> []
    | JArr xs b \<Rightarrow> True)"

text \<open>\<^verbatim>\<open>v === null\<close>, \<^verbatim>\<open>typeof v === 'undefined'\<close>, and either.\<close>

fun is_null :: "'b val \<Rightarrow> bool" where
  "is_null JNull = True"
| "is_null v = False"

fun is_undefined :: "'b val \<Rightarrow> bool" where
  "is_undefined JUndefined = True"
| "is_undefined v = False"

definition is_nullish :: "'b val \<Rightarrow> bool" where
  "is_nullish v = (is_null v \<or> is_undefined v)"

section \<open>The default filter handlers\<close>

datatype error =
    InvalidStateException string
  | BadArgumentException string
  | TypeError

text \<open>
  Reading a property of a filter: \<^verbatim>\<open>undefined\<close> and \<^verbatim>\<open>null\<close> have no properties and the
  read throws; numbers and strings have neither property; an array has what it was
  blessed with.
\<close>

fun isFiltered :: "jsval \<Rightarrow> error + (datum \<Rightarrow> bool) option" where
  "isFiltered JUndefined = Inl TypeError"
| "isFiltered JNull = Inl TypeError"
| "isFiltered (JArr xs b) = Inr (fst b)"
| "isFiltered v = Inr None"

fun filterType :: "jsval \<Rightarrow> error + string option" where
  "filterType JUndefined = Inl TypeError"
| "filterType JNull = Inl TypeError"
| "filterType (JArr xs b) = Inr (snd b)"
| "filterType v = Inr None"

text \<open>
  The crossfilter dimension is an external collaborator: the model records the calls
  made on it. \<open>filter_defined\<close> is whether the object has a \<^verbatim>\<open>filter\<close> method, which
  \<^verbatim>\<open>applyFilters\<close> tests.
\<close>

datatype dim_call =
    DimFilter jsval
  | DimFilterExact jsval
  | DimFilterRange jsval
  | DimFilterFunction "datum \<Rightarrow> error + bool"

record dimension =
  filter_defined :: bool
  calls :: "dim_call list"

definition call :: "dimension \<Rightarrow> dim_call \<Rightarrow> dimension" where
  "call d x = d\<lparr>calls := calls d @ [x]\<rparr>"

text \<open>
  The predicate \<^verbatim>\<open>d => { for (...) {...} return false; }\<close> handed to
  \<^verbatim>\<open>dimension.filterFunction\<close>, over the filter list as it is at the time of the call.
\<close>

fun filterFunction_predicate :: "jsval list \<Rightarrow> datum \<Rightarrow> error + bool" where
  "filterFunction_predicate [] d = Inr False"
| "filterFunction_predicate (flt # rest) d =
     (case isFiltered flt of
        Inl e \<Rightarrow> Inl e
      | Inr (Some p) \<Rightarrow> if p d then Inr True else filterFunction_predicate rest d
      | Inr None \<Rightarrow>
          if flt \<le> of_datum d \<and> flt \<ge> of_datum d then Inr True
          else filterFunction_predicate rest d)"

definition defaultFilterHandler ::
  "dimension \<Rightarrow> jsval list \<Rightarrow> error + (dimension \<times> jsval list option)" where
  "defaultFilterHandler dimension filters =
     (if length filters = 0 then Inr (call dimension (DimFilter JNull), Some filters)
      else
        case (if length filters = 1
              then (case isFiltered (filters ! 0) of Inl e \<Rightarrow> Inl e | Inr p \<Rightarrow> Inr (Option.is_none p))
              else Inr False) of
          Inl e \<Rightarrow> Inl e
        | Inr True \<Rightarrow> Inr (call dimension (DimFilterExact (filters ! 0)), Some filters)
        | Inr False \<Rightarrow>
            (case (if length filters = 1
                   then (case filterType (filters ! 0) of
                           Inl e \<Rightarrow> Inl e | Inr t \<Rightarrow> Inr (t = Some ''RangedFilter''))
                   else Inr False) of
               Inl e \<Rightarrow> Inl e
             | Inr True \<Rightarrow> Inr (call dimension (DimFilterRange (filters ! 0)), Some filters)
             | Inr False \<Rightarrow>
                 Inr (call dimension (DimFilterFunction (filterFunction_predicate filters)),
                      Some filters)))"


definition defaultHasFilterHandler :: "jsval list \<Rightarrow> jsval \<Rightarrow> bool" where
  "defaultHasFilterHandler filters flt =
     (if is_nullish flt then length filters > 0
      else list_ex (\<lambda>f. flt \<le> f \<and> flt \<ge> f) filters)"

text \<open>The loop splices out the first match and breaks.\<close>

fun defaultRemoveFilterHandler :: "jsval list \<Rightarrow> jsval \<Rightarrow> jsval list" where
  "defaultRemoveFilterHandler [] flt = []"
| "defaultRemoveFilterHandler (f # fs) flt =
     (if f \<le> flt \<and> f \<ge> flt then fs else f # defaultRemoveFilterHandler fs flt)"

definition defaultAddFilterHandler :: "jsval list \<Rightarrow> jsval \<Rightarrow> jsval list" where
  "defaultAddFilterHandler filters flt = filters @ [flt]"

definition defaultResetFilterHandler :: "jsval list \<Rightarrow> jsval list" where
  "defaultResetFilterHandler filters = []"

section \<open>The chart\<close>

text \<open>
  A field that holds an object reference is \<^verbatim>\<open>undefined\<close>, \<^verbatim>\<open>null\<close> or the object.
\<close>

datatype 'o slot = Unset | NullRef | Ref 'o

fun is_set :: "'o slot \<Rightarrow> bool" where
  "is_set (Ref x) = True"
| "is_set s = False"

datatype anchor = NoAnchor | Selector string | Element string

text \<open>
  A group yields records \<^verbatim>\<open>{key, value}\<close>, modelled as pairs: \<^verbatim>\<open>d.key\<close> is \<open>fst d\<close> and
  \<^verbatim>\<open>d.value\<close> is \<open>snd d\<close>.
\<close>

datatype cfgroup = CFGroup "(datum \<times> datum) list"

text \<open>
  What a call of the commit handler does with the callback it is given: each entry is one
  invocation \<^verbatim>\<open>callback(error, result)\<close>.
\<close>

datatype callback = Callback jsval jsval

text \<open>
  The effects on collaborators (listeners, the DOM controls, the legend, the chart group,
  the console) are recorded in order. Listeners and handlers are taken to return normally
  and not to call back into the chart.
\<close>

datatype event =
    Fired string
  | Filtered jsval
  | ControlsOn
  | ControlsOff
  | DoRender
  | LegendRender
  | Transition int int "event list"
  | CommitHandlerCalled bool
  | ConsoleLog jsval
  | RedrawAll
  | RenderAll

record chart =
  dcFlag :: string
  conf_dimension :: "dimension slot"
  group :: "cfgroup slot"
  anchor :: anchor
  root :: "unit slot"
  svg :: "unit slot"
  width :: "int option"
  height :: "int option"
  ordering :: "datum \<times> datum \<Rightarrow> datum"
  transitionDuration :: int
  transitionDelay :: int
  mandatoryAttributesList :: "string list option"
  legend :: bool
  commitHandler :: "(bool \<Rightarrow> callback list) option"
  filters :: "jsval list"
  filterHandler :: "dimension \<Rightarrow> jsval list \<Rightarrow> error + (dimension \<times> jsval list option)"
  hasFilterHandler :: "jsval list \<Rightarrow> jsval \<Rightarrow> bool"
  removeFilterHandler :: "jsval list \<Rightarrow> jsval \<Rightarrow> jsval list"
  addFilterHandler :: "jsval list \<Rightarrow> jsval \<Rightarrow> jsval list"
  resetFilterHandler :: "jsval list \<Rightarrow> jsval list"
  doRender :: "error option"
  other_attributes :: "string \<Rightarrow> bool option"
  events :: "event list"

text \<open>
  \<open>doRender\<close> stands for the chart-specific \<^verbatim>\<open>_doRender\<close>, which the base class leaves
  empty and every chart overrides: the error it throws, if any. \<open>other_attributes\<close>
  stands for the members \<^verbatim>\<open>this[a]\<close> that a chart gets outside \<^verbatim>\<open>base-mixin.ts\<close> (from a
  subclass or a mixin): whether the member exists and whether what it returns is truthy.
\<close>

definition emit :: "event \<Rightarrow> chart \<Rightarrow> chart" where
  "emit e c = c\<lparr>events := events c @ [e]\<rparr>"

text \<open>The constructor.\<close>

definition new_chart :: "string \<Rightarrow> chart" where
  "new_chart uid =
     \<lparr> dcFlag = uid,
       conf_dimension = Unset,
       group = Unset,
       anchor = NoAnchor,
       root = Unset,
       svg = Unset,
       width = None,
       height = None,
       ordering = fst,
       transitionDuration = 750,
       transitionDelay = 0,
       mandatoryAttributesList = Some [''dimension'', ''group''],
       legend = False,
       commitHandler = None,
       filters = [],
       filterHandler = defaultFilterHandler,
       hasFilterHandler = defaultHasFilterHandler,
       removeFilterHandler = defaultRemoveFilterHandler,
       addFilterHandler = defaultAddFilterHandler,
       resetFilterHandler = defaultResetFilterHandler,
       doRender = None,
       other_attributes = (\<lambda>a. None),
       events = [] \<rparr>"

subsection \<open>Filtering\<close>

definition applyFilters :: "chart \<Rightarrow> jsval list \<Rightarrow> error + (chart \<times> jsval list)" where
  "applyFilters c fs =
     (case conf_dimension c of
        Ref d \<Rightarrow>
          if filter_defined d then
            (case filterHandler c d fs of
               Inl e \<Rightarrow> Inl e
             | Inr (d', r) \<Rightarrow>
                 Inr (c\<lparr>conf_dimension := Ref d'\<rparr>, (case r of Some fs' \<Rightarrow> fs' | None \<Rightarrow> fs)))
          else Inr (c, fs)
      | _ \<Rightarrow> Inr (c, fs))"

definition hasFilter :: "chart \<Rightarrow> jsval option \<Rightarrow> bool" where
  "hasFilter c arg =
     hasFilterHandler c (filters c) (case arg of None \<Rightarrow> JUndefined | Some f \<Rightarrow> f)"

definition invokeFilteredListener :: "jsval \<Rightarrow> chart \<Rightarrow> chart" where
  "invokeFilteredListener f c = (if \<not> is_undefined f then emit (Filtered f) c else c)"

definition turnOnControls :: "chart \<Rightarrow> chart" where
  "turnOnControls c = (if is_set (root c) then emit ControlsOn c else c)"

definition turnOffControls :: "chart \<Rightarrow> chart" where
  "turnOffControls c = (if is_set (root c) then emit ControlsOff c else c)"

text \<open>
  One toggle: the body shared by the \<^verbatim>\<open>forEach\<close> callback and the last branch of
  \<^verbatim>\<open>filter\<close>.
\<close>

definition toggle :: "chart \<Rightarrow> jsval list \<Rightarrow> jsval \<Rightarrow> jsval list" where
  "toggle c fs f =
     (if hasFilterHandler c fs f then removeFilterHandler c fs f else addFilterHandler c fs f)"

text \<open>
  \<^verbatim>\<open>filter instanceof Array && filter[0] instanceof Array && !filter.isFiltered\<close>, and the
  elements of \<^verbatim>\<open>filter[0]\<close> in that case.
\<close>

fun toggles_each :: "jsval \<Rightarrow> jsval list option" where
  "toggles_each (JArr (JArr ys b' # rest) b) = (if Option.is_none (fst b) then Some ys else None)"
| "toggles_each v = None"

definition updated_filters :: "chart \<Rightarrow> jsval \<Rightarrow> jsval list" where
  "updated_filters c v =
     (case toggles_each v of
        Some ys \<Rightarrow> foldl (toggle c) (filters c) ys
      | None \<Rightarrow>
          if is_null v then resetFilterHandler c (filters c)
          else toggle c (filters c) v)"

text \<open>
  What \<^verbatim>\<open>filter\<close> returns: the first filter (or \<^verbatim>\<open>null\<close>) without an argument, the
  chart itself with one.
\<close>

datatype ret = Value jsval | This

definition filter_chart :: "chart \<Rightarrow> jsval option \<Rightarrow> error + (chart \<times> ret)" where
  "filter_chart c arg =
     (case arg of
        None \<Rightarrow> Inr (c, Value (if length (filters c) > 0 then filters c ! 0 else JNull))
      | Some v \<Rightarrow>
          (case applyFilters c (updated_filters c v) of
             Inl e \<Rightarrow> Inl e
           | Inr (c1, fs) \<Rightarrow>
               let c2 = invokeFilteredListener v (c1\<lparr>filters := fs\<rparr>)
               in Inr (if root c2 \<noteq> NullRef \<and> hasFilter c2 None
                       then turnOnControls c2 else turnOffControls c2, This)))"

text \<open>
  Client code chaining calls, \<^verbatim>\<open>chart.filter(v1).filter(v2)\<close>, and the filter list it
  leaves.
\<close>

fun filter_chain :: "chart \<Rightarrow> jsval list \<Rightarrow> error + chart" where
  "filter_chain c [] = Inr c"
| "filter_chain c (v # vs) =
     (case filter_chart c (Some v) of Inl e \<Rightarrow> Inl e | Inr (c', r) \<Rightarrow> filter_chain c' vs)"

definition filters_after :: "chart \<Rightarrow> jsval list \<Rightarrow> error + jsval list" where
  "filters_after c vs = map_sum id filters (filter_chain c vs)"



text \<open>
  The predicate of the default filter handler as the specification words it: a datum is
  accepted iff some filter either has an \<^verbatim>\<open>isFiltered\<close> predicate accepting the datum or is
  value-equal to it.
\<close>

definition spec_accepts :: "jsval list \<Rightarrow> datum \<Rightarrow> bool" where
  "spec_accepts fs d =
     list_ex (\<lambda>f. (case isFiltered f of Inr (Some p) \<Rightarrow> p d | _ \<Rightarrow> False)
                   \<or> (f \<le> of_datum d \<and> f \<ge> of_datum d)) fs"

text \<open>
  The predicate that the documentation of \<^verbatim>\<open>filterHandler\<close> gives as that of "the default
  filter handler": in its loop, a filter whose \<^verbatim>\<open>isFiltered\<close> rejects the datum falls through
  to the comparison,
  \<^verbatim>\<open>if (filter.isFiltered && filter.isFiltered(d)) { return true; }
  else if (filter <= d && filter >= d) { return true; }\<close>.
\<close>

fun documented_predicate :: "jsval list \<Rightarrow> datum \<Rightarrow> error + bool" where
  "documented_predicate [] d = Inr False"
| "documented_predicate (flt # rest) d =
     (case isFiltered flt of
        Inl e \<Rightarrow> Inl e
      | Inr p \<Rightarrow>
          if (case p of Some q \<Rightarrow> q d | None \<Rightarrow> False) then Inr True
          else if flt \<le> of_datum d \<and> flt \<ge> of_datum d then Inr True
          else documented_predicate rest d)"

subsection \<open>Rendering\<close>

text \<open>
  \<^verbatim>\<open>a.replace('#', '')\<close> removes the first \<^verbatim>\<open>#\<close>. An empty selector or element id is
  falsy, and the name falls back to the chart id.
\<close>

definition anchorName :: "chart \<Rightarrow> string" where
  "anchorName c =
     (case anchor c of
        Selector a \<Rightarrow> if a \<noteq> [] then remove1 (CHR ''#'') a else ''dc-chart'' @ dcFlag c
      | Element i \<Rightarrow> if i \<noteq> [] then i else ''dc-chart'' @ dcFlag c
      | NoAnchor \<Rightarrow> ''dc-chart'' @ dcFlag c)"

text \<open>
  \<^verbatim>\<open>this[a]\<close> followed by \<^verbatim>\<open>this[a]()\<close>: \<open>None\<close> when the chart has no such member,
  otherwise whether the value returned is truthy. \<^verbatim>\<open>group()\<close> returns \<^verbatim>\<open>_group\<close>. The class
  has no member \<^verbatim>\<open>dimension\<close>: the attribute is kept in \<^verbatim>\<open>_conf.dimension\<close>, and
  \<^verbatim>\<open>this['dimension']\<close> is whatever the chart got elsewhere.
\<close>

definition attribute :: "chart \<Rightarrow> string \<Rightarrow> bool option" where
  "attribute c a =
     (if a = ''group'' then Some (is_set (group c))
      else other_attributes c a)"

text \<open>
  Modelled from the spec: the accessor \<^verbatim>\<open>dimension()\<close> of the charts that have one. It is
  not defined in \<^verbatim>\<open>base-mixin.ts\<close>; the test suite of the sunburst chart sets the dimension
  with \<^verbatim>\<open>chart.dimension(...)\<close> and expects \<^verbatim>\<open>chart.dimension()\<close> to return it, and by the
  specification \<^verbatim>\<open>render\<close> verifies that \<^verbatim>\<open>dimension\<close> is truthy. The accessor returns the
  configured dimension.
\<close>

definition with_dimension_accessor :: "chart \<Rightarrow> chart" where
  "with_dimension_accessor c =
     c\<lparr>other_attributes := (other_attributes c)(''dimension'' := Some (is_set (conf_dimension c)))\<rparr>"

definition missing_message :: "chart \<Rightarrow> string \<Rightarrow> string" where
  "missing_message c a =
     ''Mandatory attribute chart.'' @ a @ '' is missing on chart[#'' @ anchorName c @ '']''"

definition checkForMandatoryAttributes :: "chart \<Rightarrow> string \<Rightarrow> error option" where
  "checkForMandatoryAttributes c a =
     (case attribute c a of
        Some True \<Rightarrow> None
      | _ \<Rightarrow> Some (InvalidStateException (missing_message c a)))"

text \<open>\<^verbatim>\<open>forEach\<close> over the list: the first failing check throws.\<close>

fun check_each :: "chart \<Rightarrow> string list \<Rightarrow> error option" where
  "check_each c [] = None"
| "check_each c (a # as) =
     (case checkForMandatoryAttributes c a of Some e \<Rightarrow> Some e | None \<Rightarrow> check_each c as)"

text \<open>
  With a positive duration and an svg, the renderlet and the closing event fire when the
  transition ends: they are recorded inside the \<open>Transition\<close> entry.
\<close>

definition activateRenderlets :: "string option \<Rightarrow> chart \<Rightarrow> chart" where
  "activateRenderlets ev c =
     (let c1 = emit (Fired ''pretransition'') c;
          closing = Fired ''renderlet'' # (case ev of Some e \<Rightarrow> [Fired e] | None \<Rightarrow> [])
      in if transitionDuration c1 > 0 \<and> is_set (svg c1)
         then emit (Transition (transitionDuration c1) (transitionDelay c1) closing) c1
         else c1\<lparr>events := events c1 @ closing\<rparr>)"

definition render :: "chart \<Rightarrow> error + chart" where
  "render c =
     (let c1 = emit (Fired ''preRender'') (c\<lparr>height := None, width := None\<rparr>)
      in case (case mandatoryAttributesList c1 of
                 Some as \<Rightarrow> check_each c1 as | None \<Rightarrow> None) of
           Some e \<Rightarrow> Inl e
         | None \<Rightarrow>
             (case doRender c1 of
                Some e \<Rightarrow> Inl e
              | None \<Rightarrow>
                  let c2 = emit DoRender c1;
                      c3 = (if legend c2 then emit LegendRender c2 else c2)
                  in Inr (activateRenderlets (Some ''postRender'') c3)))"

subsection \<open>Group-wide redraw and render\<close>

text \<open>
  The callback handed to the commit handler, \<^verbatim>\<open>(error, result) => {...}\<close>; \<open>all\<close> is the
  notification of the chart group (\<^verbatim>\<open>redrawAll\<close> or \<^verbatim>\<open>renderAll\<close>). The chart is taken to
  have a chart group, as it has once \<^verbatim>\<open>anchor\<close> has run.
\<close>

fun commit_callback :: "event \<Rightarrow> callback \<Rightarrow> chart \<Rightarrow> chart" where
  "commit_callback all (Callback error result) c =
     (if truthy error then emit (ConsoleLog error) c else emit all c)"

definition redrawGroup :: "chart \<Rightarrow> chart" where
  "redrawGroup c =
     (case commitHandler c of
        Some h \<Rightarrow> fold (commit_callback RedrawAll) (h False) (emit (CommitHandlerCalled False) c)
      | None \<Rightarrow> emit RedrawAll c)"

definition renderGroup :: "chart \<Rightarrow> chart" where
  "renderGroup c =
     (case commitHandler c of
        Some h \<Rightarrow> fold (commit_callback RenderAll) (h False) (emit (CommitHandlerCalled False) c)
      | None \<Rightarrow> emit RenderAll c)"

subsection \<open>Ordered groups\<close>

text \<open>
  \<^verbatim>\<open>_computeOrderedGroups\<close> copies its argument with \<^verbatim>\<open>Array.from\<close> and sorts the copy in
  place. Arrays live in a store, so that the copy and the original are different objects.
\<close>

record 'a store =
  arrays :: "nat \<rightharpoonup> 'a list"
  next_free :: nat

definition array_from :: "'a store \<Rightarrow> nat \<Rightarrow> ('a store \<times> nat) option" where
  "array_from h a =
     (case arrays h a of
        None \<Rightarrow> None
      | Some xs \<Rightarrow>
          Some (h\<lparr>arrays := (arrays h)(next_free h \<mapsto> xs), next_free := Suc (next_free h)\<rparr>,
                next_free h))"

text \<open>
  \<^verbatim>\<open>ascending\<close> of d3-array:
  \<^verbatim>\<open>a < b ? -1 : a > b ? 1 : a >= b ? 0 : NaN\<close>.
\<close>

definition ascending :: "'k::ord \<Rightarrow> 'k \<Rightarrow> jsnum" where
  "ascending a b =
     (if a < b then Fin (- 1) else if a > b then Fin 1 else if a \<ge> b then Fin 0 else NaN)"

text \<open>
  \<^verbatim>\<open>Array.prototype.sort\<close> is the engine's. The language fixes its result only in part: the
  result is always a permutation of the array, and it is in sorted order (no element is
  placed after one that the comparator puts it before) when the comparator is a consistent
  comparison function for the elements: its results are never \<^verbatim>\<open>NaN\<close>, "equal" is reflexive,
  symmetric and transitive, "less" and "greater" are transitive. For any other comparator
  the order is implementation-defined. The engine's sort is therefore a parameter \<open>srt\<close> of
  the model, and \<open>sort_ok\<close> is what the language says of it.
\<close>

fun negative :: "jsnum \<Rightarrow> bool" where
  "negative NaN = False"
| "negative (Fin i) = (sint i < 0)"

fun is_zero :: "jsnum \<Rightarrow> bool" where
  "is_zero NaN = False"
| "is_zero (Fin i) = (sint i = 0)"

fun positive :: "jsnum \<Rightarrow> bool" where
  "positive NaN = False"
| "positive (Fin i) = (sint i > 0)"

definition consistent :: "('a \<Rightarrow> 'a \<Rightarrow> jsnum) \<Rightarrow> 'a set \<Rightarrow> bool" where
  "consistent cmp S =
     ((\<forall>a \<in> S. \<forall>b \<in> S. cmp a b \<noteq> NaN)
      \<and> (\<forall>a \<in> S. is_zero (cmp a a))
      \<and> (\<forall>a \<in> S. \<forall>b \<in> S. is_zero (cmp a b) \<longrightarrow> is_zero (cmp b a))
      \<and> (\<forall>a \<in> S. \<forall>b \<in> S. \<forall>c \<in> S.
            is_zero (cmp a b) \<longrightarrow> is_zero (cmp b c) \<longrightarrow> is_zero (cmp a c))
      \<and> (\<forall>a \<in> S. \<forall>b \<in> S. \<forall>c \<in> S.
            negative (cmp a b) \<longrightarrow> negative (cmp b c) \<longrightarrow> negative (cmp a c))
      \<and> (\<forall>a \<in> S. \<forall>b \<in> S. \<forall>c \<in> S.
            positive (cmp a b) \<longrightarrow> positive (cmp b c) \<longrightarrow> positive (cmp a c)))"

definition in_sorted_order :: "('a \<Rightarrow> 'a \<Rightarrow> jsnum) \<Rightarrow> 'a list \<Rightarrow> bool" where
  "in_sorted_order cmp ys = sorted_wrt (\<lambda>x y. \<not> negative (cmp y x)) ys"

definition sort_ok :: "(('a \<Rightarrow> 'a \<Rightarrow> jsnum) \<Rightarrow> 'a list \<Rightarrow> 'a list) \<Rightarrow> bool" where
  "sort_ok srt =
     (\<forall>cmp xs. mset (srt cmp xs) = mset xs
        \<and> (consistent cmp (set xs) \<longrightarrow> in_sorted_order cmp (srt cmp xs)))"

text \<open>\<^verbatim>\<open>sort\<close> works in place, on the array it is called on.\<close>

definition array_sort ::
  "(('a \<Rightarrow> 'a \<Rightarrow> jsnum) \<Rightarrow> 'a list \<Rightarrow> 'a list) \<Rightarrow> ('a \<Rightarrow> 'a \<Rightarrow> jsnum) \<Rightarrow> 'a store \<Rightarrow> nat
    \<Rightarrow> 'a store" where
  "array_sort srt cmp h a =
     (case arrays h a of
        None \<Rightarrow> h
      | Some xs \<Rightarrow> h\<lparr>arrays := (arrays h)(a \<mapsto> srt cmp xs)\<rparr>)"

definition computeOrderedGroups ::
  "((datum \<times> datum \<Rightarrow> datum \<times> datum \<Rightarrow> jsnum) \<Rightarrow> (datum \<times> datum) list \<Rightarrow> (datum \<times> datum) list)
    \<Rightarrow> chart \<Rightarrow> (datum \<times> datum) store \<Rightarrow> nat \<Rightarrow> ((datum \<times> datum) store \<times> nat) option" where
  "computeOrderedGroups srt c h data =
     (case array_from h data of
        None \<Rightarrow> None
      | Some (h1, copy) \<Rightarrow>
          Some (array_sort srt (\<lambda>a b. ascending (ordering c a) (ordering c b)) h1 copy, copy))"

text \<open>
  One sort that the language allows: the stable insertion sort that the comparator drives
  (a positive result puts the second argument first, anything else keeps the order). It
  stands for the engine where a sequence is sorted on a concrete input.
\<close>

fun insert_by :: "('a \<Rightarrow> 'a \<Rightarrow> jsnum) \<Rightarrow> 'a \<Rightarrow> 'a list \<Rightarrow> 'a list" where
  "insert_by cmp x [] = [x]"
| "insert_by cmp x (y # ys) =
     (if positive (cmp x y) then y # insert_by cmp x ys else x # y # ys)"

definition sort_by :: "('a \<Rightarrow> 'a \<Rightarrow> jsnum) \<Rightarrow> 'a list \<Rightarrow> 'a list" where
  "sort_by cmp xs = foldr (insert_by cmp) xs []"

text \<open>A store is well formed when every array in it lies below the next free address.\<close>

definition store_ok :: "'a store \<Rightarrow> bool" where
  "store_ok h = (\<forall>a. arrays h a \<noteq> None \<longrightarrow> a < next_free h)"

text \<open>
  The keys of a sequence are ordered when the language's comparison is total on them
  (of any two keys \<open>a\<close> and \<open>b\<close>, \<^verbatim>\<open>a < b\<close> or \<^verbatim>\<open>a >= b\<close>: no \<^verbatim>\<open>NaN\<close>, no \<^verbatim>\<open>undefined\<close>) and
  \<^verbatim>\<open><=\<close> is transitive on them (as it is on numbers alone, or on strings alone).
\<close>

definition keys_ordered :: "datum set \<Rightarrow> bool" where
  "keys_ordered K =
     ((\<forall>a \<in> K. \<forall>b \<in> K. a < b \<or> a \<ge> b)
      \<and> (\<forall>a \<in> K. \<forall>b \<in> K. \<forall>c \<in> K. a \<le> b \<longrightarrow> b \<le> c \<longrightarrow> a \<le> c))"

text \<open>A sequence is ascending by an accessor when each key is \<^verbatim>\<open><=\<close> every later key.\<close>

definition ascending_by :: "('a \<Rightarrow> datum) \<Rightarrow> 'a list \<Rightarrow> bool" where
  "ascending_by f ys = sorted_wrt (\<lambda>a b. f a \<le> f b) ys"

section \<open>Sunburst ring sizes\<close>

text \<open>
  The sunburst chart itself is not among the sources; its test suite is. Its ring sizing is
  modelled from the specification, on top of \<open>render\<close> above: fractions are exact
  rationals, and the tolerance of the sum test is a parameter of the chart.
\<close>

text \<open>
  Modelled from the spec: what a caller-supplied percentage function returns, "an array
  (not a non-array object)" of fractions.
\<close>

datatype fractions = NotAnArray | Fractions "rat list"

text \<open>
  Modelled from the spec: the ring-size policies \<^verbatim>\<open>defaultRingSizes()\<close>,
  \<^verbatim>\<open>equalRingSizes()\<close> and \<^verbatim>\<open>relativeRingSizes(percentageFn)\<close>, the last with the function
  "(ringCount) -> sequence of fractions".
\<close>

datatype ring_sizes =
    DefaultRingSizes
  | EqualRingSizes
  | RelativeRingSizes "nat \<Rightarrow> fractions"

text \<open>
  Modelled from the spec: a sunburst chart is a chart with a ring-size policy; \<open>ringCount\<close>
  is the number of ring levels of its data.
\<close>

record sunburst =
  base :: chart
  ringSizes :: ring_sizes
  ringCount :: nat
  tolerance :: rat

text \<open>
  Modelled from the spec: \<^verbatim>\<open>ringSizes(fn)\<close> stores the policy; nothing is validated when it
  is configured.
\<close>

definition set_ringSizes :: "ring_sizes \<Rightarrow> sunburst \<Rightarrow> sunburst" where
  "set_ringSizes p sb = sb\<lparr>ringSizes := p\<rparr>"

text \<open>
  Modelled from the spec: the result of the percentage function "must satisfy: returns an
  array, length exactly equals ringCount, and the fractions sum to 1 (within floating
  tolerance) - violation of any condition fails with a BadArgument error".
\<close>

definition check_fractions :: "rat \<Rightarrow> nat \<Rightarrow> fractions \<Rightarrow> error option" where
  "check_fractions tol n r =
     (case r of
        NotAnArray \<Rightarrow> Some (BadArgumentException ''relativeRingSizes: not an array'')
      | Fractions ps \<Rightarrow>
          if length ps \<noteq> n then Some (BadArgumentException ''relativeRingSizes: wrong length'')
          else if \<bar>sum_list ps - 1\<bar> > tol
            then Some (BadArgumentException ''relativeRingSizes: sum is not 1'')
          else None)"

text \<open>
  Modelled from the spec: the ring-size function is called with the ring count during the
  radial partition at render time; the default and the equal policy never throw.
\<close>

definition ring_sizes_error :: "sunburst \<Rightarrow> error option" where
  "ring_sizes_error sb =
     (case ringSizes sb of
        RelativeRingSizes f \<Rightarrow> check_fractions (tolerance sb) (ringCount sb) (f (ringCount sb))
      | _ \<Rightarrow> None)"

text \<open>
  Modelled from the spec: \<^verbatim>\<open>render()\<close> of a sunburst chart is \<open>render\<close> with the radial
  partition as its chart-specific draw routine, on a chart that has the accessor
  \<^verbatim>\<open>dimension()\<close>.
\<close>

definition sunburst_render :: "sunburst \<Rightarrow> error + sunburst" where
  "sunburst_render sb =
     (case render (with_dimension_accessor ((base sb)\<lparr>doRender := ring_sizes_error sb\<rparr>)) of
        Inl e \<Rightarrow> Inl e
      | Inr c \<Rightarrow> Inr (sb\<lparr>base := c\<rparr>))"

section \<open>Example inputs\<close>

text \<open>A chart anchored at \<^verbatim>\<open>#chart\<close>, a dimension and a group.\<close>

definition chart0 :: chart where
  "chart0 = (new_chart ''7'')\<lparr>anchor := Selector ''#chart''\<rparr>"

definition dimension0 :: dimension where
  "dimension0 = \<lparr>filter_defined = True, calls = []\<rparr>"

definition group0 :: cfgroup where
  "group0 = CFGroup []"

text \<open>
  A filter object in the shape of dc's ranged filter: the array \<^verbatim>\<open>[1, 5]\<close> blessed with the
  predicate \<^verbatim>\<open>d => d >= 1 && d < 5\<close> and the filter type \<^verbatim>\<open>'RangedFilter'\<close>.
\<close>

definition ranged_1_5 :: jsval where
  "ranged_1_5 =
     JArr [JNum (Fin 1), JNum (Fin 5)]
       (Some (\<lambda>d. d \<ge> JNum (Fin 1) \<and> d < JNum (Fin 5)), Some ''RangedFilter'')"

text \<open>
  A commit handler that reports success for a render and an error for a redraw.
\<close>

definition fails_on_redraw :: "bool \<Rightarrow> callback list" where
  "fails_on_redraw isRender =
     [Callback (if isRender then JNull else JStr ''redraw rejected'') JUndefined]"

text \<open>A store with one array of records at address 0, with the keys b, c, a.\<close>

definition store0 :: "(datum \<times> datum) store" where
  "store0 =
     \<lparr>arrays = [0 \<mapsto> [(JStr ''b'', JNum (Fin 2)), (JStr ''c'', JNum (Fin 1)),
                        (JStr ''a'', JNum (Fin 3))]],
      next_free = 1\<rparr>"

text \<open>A store with one array of two records at address 0, with the keys \<^verbatim>\<open>NaN\<close> and 1.\<close>

definition store_nan :: "(datum \<times> datum) store" where
  "store_nan =
     \<lparr>arrays = [0 \<mapsto> [(JNum NaN, JNum (Fin 1)), (JNum (Fin 1), JNum (Fin 2))]],
      next_free = 1\<rparr>"

text \<open>
  The sunburst chart of the test suite: three complete rings, dimension and group set.
\<close>

definition sunburst0 :: sunburst where
  "sunburst0 =
     \<lparr> base = chart0\<lparr>conf_dimension := Ref dimension0, group := Ref group0\<rparr>,
       ringSizes = DefaultRingSizes,
       ringCount = 3,
       tolerance = 1 / 1000000 \<rparr>"

text \<open>The percentage functions of the test suite.\<close>

definition functionReturnsNonArray :: "nat \<Rightarrow> fractions" where
  "functionReturnsNonArray n = NotAnArray"

definition tooManyPercentageValues :: "nat \<Rightarrow> fractions" where
  "tooManyPercentageValues n = Fractions [1 / 10, 1 / 10, 1 / 10, 1 / 10]"

definition percentagesSumNot1 :: "nat \<Rightarrow> fractions" where
  "percentagesSumNot1 n = Fractions [1 / 2, 1 / 2, 1 / 2]"

definition specificPercentages :: "nat \<Rightarrow> fractions" where
  "specificPercentages n = Fractions [1 / 10, 3 / 10, 6 / 10]"

section \<open>Filtering: properties\<close>

lemma applyFilters_unbound:
  "\<not> is_set (conf_dimension c) \<Longrightarrow> applyFilters c fs = Inr (c, fs)"
  by (cases "conf_dimension c") (simp_all add: applyFilters_def)

lemma filter_chart_unbound:
  assumes "\<not> is_set (conf_dimension c)"
  shows "\<exists>c'. filter_chart c (Some v) = Inr (c', This) \<and> filters c' = updated_filters c v
     \<and> conf_dimension c' = conf_dimension c
     \<and> hasFilterHandler c' = hasFilterHandler c
     \<and> addFilterHandler c' = addFilterHandler c
     \<and> removeFilterHandler c' = removeFilterHandler c
     \<and> resetFilterHandler c' = resetFilterHandler c"
  using assms
  by (simp add: filter_chart_def applyFilters_unbound Let_def invokeFilteredListener_def
      turnOnControls_def turnOffControls_def emit_def)




text \<open>
  C2. For every chart whose has-filter and reset handlers are the default ones and that has
  no dimension bound, whatever its filter list, \<^verbatim>\<open>filter(null)\<close> returns the chart with an
  empty filter list, and \<^verbatim>\<open>hasFilter()\<close> on it is false.
\<close>

theorem filter_null_resets:
  assumes "hasFilterHandler c = defaultHasFilterHandler"
    and "resetFilterHandler c = defaultResetFilterHandler"
    and "\<not> is_set (conf_dimension c)"
  shows "\<exists>c'. filter_chart c (Some JNull) = Inr (c', This) \<and> filters c' = []
            \<and> \<not> hasFilter c' None"
proof -
  obtain c' where c': "filter_chart c (Some JNull) = Inr (c', This)"
    "filters c' = updated_filters c JNull" "hasFilterHandler c' = hasFilterHandler c"
    using filter_chart_unbound[OF assms(3), of JNull] by blast
  have "updated_filters c JNull = []"
    by (simp add: updated_filters_def assms defaultResetFilterHandler_def)
  with c' show ?thesis
    by (simp add: hasFilter_def assms defaultHasFilterHandler_def is_nullish_def)
qed

theorem filter_null_resets_witness:
  "\<exists>c'. filter_chart ((new_chart ''1'')\<lparr>filters := [JNum (Fin 4), JStr ''Sunday'']\<rparr>) (Some JNull)
           = Inr (c', This)
        \<and> filters c' = [] \<and> \<not> hasFilter c' None"
  using filter_null_resets[of "(new_chart ''1'')\<lparr>filters := [JNum (Fin 4), JStr ''Sunday'']\<rparr>"]
  by (simp add: new_chart_def)

lemma remove_appended:
  "\<not> list_ex (\<lambda>f. v \<le> f \<and> v \<ge> f) fs \<Longrightarrow> v \<le> v \<Longrightarrow>
   defaultRemoveFilterHandler (fs @ [v]) v = fs"
  by (induction fs) auto

text \<open>
  C3, as amended. For every chart with the default has, add and remove handlers and no
  dimension bound, and every value \<open>v\<close> that is toggled as one unit (not \<^verbatim>\<open>null\<close>, not an
  array whose first element is an array), that is value-equal to itself
  (\<^verbatim>\<open>v <= v && v >= v\<close>, which \<^verbatim>\<open>NaN\<close> and \<^verbatim>\<open>undefined\<close> are not) and that the chart does
  not have as a filter: \<^verbatim>\<open>filter(v)\<close> twice leaves the filter list as it was.
\<close>

theorem toggle_twice_restores:
  assumes "hasFilterHandler c = defaultHasFilterHandler"
    and "addFilterHandler c = defaultAddFilterHandler"
    and "removeFilterHandler c = defaultRemoveFilterHandler"
    and "\<not> is_set (conf_dimension c)"
    and "\<not> is_null v" and "toggles_each v = None" and "v \<le> v"
    and "\<not> hasFilter c (Some v)"
  shows "filters_after c [v, v] = Inr (filters c)"
proof -
  obtain c1 where c1: "filter_chart c (Some v) = Inr (c1, This)"
    "filters c1 = updated_filters c v" "conf_dimension c1 = conf_dimension c"
    "hasFilterHandler c1 = hasFilterHandler c" "addFilterHandler c1 = addFilterHandler c"
    "removeFilterHandler c1 = removeFilterHandler c"
    using filter_chart_unbound[OF assms(4), of v] by blast
  have nn: "\<not> is_nullish v"
    using assms(5,7) by (cases v) (simp_all add: is_nullish_def less_eq_val_def compare_less_def)
  have absent: "\<not> list_ex (\<lambda>f. v \<le> f \<and> v \<ge> f) (filters c)"
    using assms(8) nn by (simp add: hasFilter_def assms(1) defaultHasFilterHandler_def)
  have "updated_filters c v = toggle c (filters c) v"
    using assms(5,6) by (simp add: updated_filters_def)
  also have "\<dots> = filters c @ [v]"
    using absent nn
    by (simp add: toggle_def assms(1,2) defaultHasFilterHandler_def defaultAddFilterHandler_def)
  finally have f1: "filters c1 = filters c @ [v]"
    using c1(2) by simp
  have unb1: "\<not> is_set (conf_dimension c1)"
    using assms(4) c1(3) by simp
  obtain c2 where c2: "filter_chart c1 (Some v) = Inr (c2, This)"
    "filters c2 = updated_filters c1 v"
    using filter_chart_unbound[OF unb1, of v] by blast
  have "updated_filters c1 v = toggle c1 (filters c1) v"
    using assms(5,6) by (simp add: updated_filters_def)
  also have "\<dots> = defaultRemoveFilterHandler (filters c @ [v]) v"
    using nn assms(7)
    by (simp add: toggle_def c1(4,6) assms(1,3) f1 defaultHasFilterHandler_def)
  also have "\<dots> = filters c"
    by (rule remove_appended[OF absent assms(7)])
  finally have "filters c2 = filters c"
    using c2(2) by simp
  with c1(1) c2(1) show ?thesis
    by (simp add: filters_after_def)
qed

theorem toggle_twice_restores_witness:
  "filters_after ((new_chart ''1'')\<lparr>filters := [JNum (Fin 4)]\<rparr>) [JStr ''Sunday'', JStr ''Sunday'']
     = Inr [JNum (Fin 4)]"
  using toggle_twice_restores[of "(new_chart ''1'')\<lparr>filters := [JNum (Fin 4)]\<rparr>" "JStr ''Sunday''"]
  by (simp add: new_chart_def hasFilter_def defaultHasFilterHandler_def is_nullish_def
      less_eq_val_def compare_less_def string_to_number_def trim_def is_ws_def parse_radix_def
      parse_decimal_def parse_unsigned_decimal_def is_exp_char_def digits0_def digit_of_def
      Let_def)

text \<open>
  A fresh chart has the default handlers, no dimension and no filter, so \<^verbatim>\<open>NaN\<close> is not
  among its filters; \<^verbatim>\<open>filter(NaN)\<close> twice leaves two filters, since \<^verbatim>\<open>NaN\<close> is never found
  by the has-filter handler.
\<close>

theorem toggle_twice_NaN_counterexample:
  "hasFilterHandler (new_chart ''1'') = defaultHasFilterHandler
   \<and> addFilterHandler (new_chart ''1'') = defaultAddFilterHandler
   \<and> removeFilterHandler (new_chart ''1'') = defaultRemoveFilterHandler
   \<and> conf_dimension (new_chart ''1'') = Unset
   \<and> filters (new_chart ''1'') = []
   \<and> \<not> hasFilter (new_chart ''1'') (Some (JNum NaN))
   \<and> filters_after (new_chart ''1'') [JNum NaN, JNum NaN] = Inr [JNum NaN, JNum NaN]"
  by (simp add: filters_after_def filter_chart_def applyFilters_def new_chart_def Let_def
      updated_filters_def toggle_def defaultHasFilterHandler_def defaultAddFilterHandler_def
      is_nullish_def invokeFilteredListener_def turnOnControls_def turnOffControls_def emit_def
      less_eq_val_def compare_less_def hasFilter_def)

section \<open>The default filter handler: properties\<close>

lemma filterFunction_predicate_accepts:
  "\<forall>f \<in> set fs. \<not> is_nullish f \<Longrightarrow>
   filterFunction_predicate fs d =
     Inr (\<exists>f \<in> set fs. case isFiltered f of
                          Inr (Some p) \<Rightarrow> p d
                        | _ \<Rightarrow> f \<le> of_datum d \<and> f \<ge> of_datum d)"
proof (induction fs)
  case Nil
  then show ?case by simp
next
  case (Cons f fs)
  then show ?case
    by (cases f) (auto simp: is_nullish_def split: option.splits)
qed

text \<open>
  What the handler does with a filter list without \<^verbatim>\<open>null\<close> or \<^verbatim>\<open>undefined\<close> entries: one
  call on the dimension, chosen in the order of the source, and the filter list returned.
  The predicate it installs compares by value only the filters that have no \<^verbatim>\<open>isFiltered\<close>.
\<close>

lemma defaultFilterHandler_dispatch:
  assumes "\<forall>f \<in> set fs. \<not> is_nullish f"
  shows "defaultFilterHandler dm fs =
      Inr (call dm
            (if fs = [] then DimFilter JNull
             else if length fs = 1 \<and> isFiltered (fs ! 0) = Inr None then DimFilterExact (fs ! 0)
             else if length fs = 1 \<and> filterType (fs ! 0) = Inr (Some ''RangedFilter'')
               then DimFilterRange (fs ! 0)
             else DimFilterFunction (filterFunction_predicate fs)), Some fs)
    \<and> (\<forall>d. filterFunction_predicate fs d =
           Inr (\<exists>f \<in> set fs. case isFiltered f of
                                Inr (Some p) \<Rightarrow> p d
                              | _ \<Rightarrow> f \<le> of_datum d \<and> f \<ge> of_datum d))"
proof -
  have "defaultFilterHandler dm fs =
      Inr (call dm
            (if fs = [] then DimFilter JNull
             else if length fs = 1 \<and> isFiltered (fs ! 0) = Inr None then DimFilterExact (fs ! 0)
             else if length fs = 1 \<and> filterType (fs ! 0) = Inr (Some ''RangedFilter'')
               then DimFilterRange (fs ! 0)
             else DimFilterFunction (filterFunction_predicate fs)), Some fs)"
  proof (cases fs)
    case Nil
    then show ?thesis by (simp add: defaultFilterHandler_def)
  next
    case (Cons f rest)
    show ?thesis
    proof (cases rest)
      case Nil
      with Cons assms have "\<not> is_nullish f" by simp
      then show ?thesis using Cons Nil
        by (cases f) (auto simp: defaultFilterHandler_def is_nullish_def)
    next
      case (Cons g more)
      with \<open>fs = f # rest\<close> show ?thesis by (simp add: defaultFilterHandler_def)
    qed
  qed
  with filterFunction_predicate_accepts[OF assms] show ?thesis by blast
qed

lemma defaultFilterHandler_dispatch_example:
  "defaultFilterHandler dimension0 [JNum (Fin 3), JStr ''a''] =
     Inr (\<lparr>filter_defined = True,
           calls = [DimFilterFunction (filterFunction_predicate [JNum (Fin 3), JStr ''a''])]\<rparr>,
          Some [JNum (Fin 3), JStr ''a''])
   \<and> filterFunction_predicate [JNum (Fin 3), JStr ''a''] (JStr ''a'') = Inr True"
  using defaultFilterHandler_dispatch[of "[JNum (Fin 3), JStr ''a'']" dimension0]
  apply (simp add: is_nullish_def call_def dimension0_def)
  apply (simp add: of_datum_def less_eq_val_def compare_less_def)
  done

text \<open>Reading \<^verbatim>\<open>filters[0].isFiltered\<close> of a \<^verbatim>\<open>null\<close> entry throws.\<close>

lemma defaultFilterHandler_null_entry:
  "defaultFilterHandler dimension0 [JNull] = Inl TypeError"
  by (simp add: defaultFilterHandler_def)

text \<open>
  C4. The claim has the installed predicate accept a datum iff some filter either has an
  \<^verbatim>\<open>isFiltered\<close> predicate accepting the datum or is value-equal to it, as the documentation
  of \<^verbatim>\<open>filterHandler\<close> has it. With the filters \<^verbatim>\<open>[RangedFilter(1, 5), 9]\<close> the handler
  installs its predicate with \<^verbatim>\<open>filterFunction\<close>, and on the datum \<^verbatim>\<open>[1, 5]\<close> that predicate
  answers false: the ranged filter rejects the datum and, having an \<^verbatim>\<open>isFiltered\<close>, is not
  compared with it. The ranged filter is value-equal to the datum (both are the string
  \<^verbatim>\<open>"1,5"\<close> when compared), so the documented predicate and the predicate of the claim
  accept it.
\<close>

theorem defaultFilterHandler_predicate_rejects_value_equal:
  "defaultFilterHandler dimension0 [ranged_1_5, JNum (Fin 9)] =
     Inr (call dimension0
            (DimFilterFunction (filterFunction_predicate [ranged_1_5, JNum (Fin 9)])),
          Some [ranged_1_5, JNum (Fin 9)])
   \<and> filterFunction_predicate [ranged_1_5, JNum (Fin 9)] (JArr [JNum (Fin 1), JNum (Fin 5)] ())
       = Inr False
   \<and> documented_predicate [ranged_1_5, JNum (Fin 9)] (JArr [JNum (Fin 1), JNum (Fin 5)] ())
       = Inr True
   \<and> spec_accepts [ranged_1_5, JNum (Fin 9)] (JArr [JNum (Fin 1), JNum (Fin 5)] ())"
  by (simp add: ranged_1_5_def spec_accepts_def of_datum_def less_eq_val_def less_val_def
      compare_less_def int_to_string_def nat_to_string.simps string_to_number_def trim_def
      is_ws_def parse_radix_def parse_decimal_def parse_unsigned_decimal_def digits0_def
      digits1_def digit_of_def is_exp_char_def parse_exponent_def defaultFilterHandler_def
      Let_def)

section \<open>Rendering: properties\<close>

lemma anchorName_preRender:
  "anchorName (c\<lparr>height := x, width := y, events := z\<rparr>) = anchorName c"
  by (simp add: anchorName_def split: anchor.splits)

lemma anchorName_examples:
  "anchorName ((new_chart ''7'')\<lparr>anchor := Selector ''#chart''\<rparr>) = ''chart''"
  "anchorName ((new_chart ''7'')\<lparr>anchor := Element ''box''\<rparr>) = ''box''"
  "anchorName ((new_chart ''7'')\<lparr>anchor := Element []\<rparr>) = ''dc-chart7''"
  "anchorName (new_chart ''7'') = ''dc-chart7''"
  by (simp_all add: anchorName_def new_chart_def)

text \<open>
  A chart that has no member \<^verbatim>\<open>dimension\<close>, as a chart of \<^verbatim>\<open>base-mixin.ts\<close> alone, fails
  the first check whatever its dimension and group are.
\<close>

lemma render_without_dimension_member:
  assumes "mandatoryAttributesList c = Some [''dimension'', ''group'']"
    and "other_attributes c ''dimension'' = None"
  shows "render c = Inl (InvalidStateException
           (''Mandatory attribute chart.dimension is missing on chart[#''
              @ anchorName c @ '']''))"
  using assms
  by (simp add: render_def Let_def emit_def checkForMandatoryAttributes_def attribute_def
      missing_message_def anchorName_preRender)

text \<open>
  A chart that has the accessor behaves as the specification says: the first of
  \<^verbatim>\<open>dimension\<close> and \<^verbatim>\<open>group\<close> that is unset is reported, and with both set the check passes.
\<close>

lemma anchorName_with_accessor:
  "anchorName (c\<lparr>other_attributes := t, height := x, width := y, events := z\<rparr>) = anchorName c"
  by (simp add: anchorName_def split: anchor.splits)

lemma render_with_dimension_accessor:
  assumes "mandatoryAttributesList c = Some [''dimension'', ''group'']"
  shows "(\<not> is_set (conf_dimension c) \<longrightarrow>
            render (with_dimension_accessor c) = Inl (InvalidStateException
              (''Mandatory attribute chart.dimension is missing on chart[#''
                 @ anchorName c @ '']'')))
       \<and> (is_set (conf_dimension c) \<and> \<not> is_set (group c) \<longrightarrow>
            render (with_dimension_accessor c) = Inl (InvalidStateException
              (''Mandatory attribute chart.group is missing on chart[#''
                 @ anchorName c @ '']'')))
       \<and> (is_set (conf_dimension c) \<and> is_set (group c) \<longrightarrow>
            (case doRender c of
               Some e \<Rightarrow> render (with_dimension_accessor c) = Inl e
             | None \<Rightarrow> (\<exists>c'. render (with_dimension_accessor c) = Inr c')))"
  using assms
  by (auto simp: render_def Let_def emit_def checkForMandatoryAttributes_def attribute_def
      missing_message_def anchorName_with_accessor with_dimension_accessor_def
      split: option.splits)

text \<open>
  C5. The claim has \<^verbatim>\<open>render\<close> throw the InvalidStateException when the dimension or the
  group is unset and not throw it when both are set. \<^verbatim>\<open>checkForMandatoryAttributes\<close> looks
  the attribute up as a member, \<^verbatim>\<open>this['dimension']\<close>, and the class keeps the dimension in
  \<^verbatim>\<open>_conf.dimension\<close> without defining that member: a chart of the class with both its
  dimension and its group set is refused by \<^verbatim>\<open>render\<close>, with the message that the
  dimension is missing; so is a chart with the dimension set and the group unset, where the
  claim has the message name the group.
\<close>

theorem render_refuses_configured_dimension:
  "render (chart0\<lparr>conf_dimension := Ref dimension0, group := Ref group0\<rparr>) =
     Inl (InvalidStateException
       ''Mandatory attribute chart.dimension is missing on chart[#chart]'')
   \<and> render (chart0\<lparr>conf_dimension := Ref dimension0\<rparr>) =
     Inl (InvalidStateException
       ''Mandatory attribute chart.dimension is missing on chart[#chart]'')"
  by (simp add: render_def Let_def emit_def checkForMandatoryAttributes_def attribute_def
      missing_message_def anchorName_def chart0_def new_chart_def)

section \<open>Group-wide redraw and render: properties\<close>

lemma fold_commit_callback:
  "events (fold (commit_callback all) cbs c) =
     events c @ map (\<lambda>cb. case cb of Callback e r \<Rightarrow> if truthy e then ConsoleLog e else all) cbs"
proof (induction cbs arbitrary: c)
  case Nil
  then show ?case by simp
next
  case (Cons cb cbs)
  then show ?case by (cases cb) (simp add: emit_def)
qed

text \<open>
  What both methods do: without a commit handler the chart group is notified at once; with
  one, the handler is called and each invocation of its callback logs the error, if there
  is one, and notifies the chart group otherwise.
\<close>

lemma redrawGroup_events:
  "events (redrawGroup c) =
     (case commitHandler c of
        None \<Rightarrow> events c @ [RedrawAll]
      | Some h \<Rightarrow> events c @ CommitHandlerCalled False #
          map (\<lambda>cb. case cb of Callback e r \<Rightarrow> if truthy e then ConsoleLog e else RedrawAll)
            (h False))"
  by (simp add: redrawGroup_def fold_commit_callback emit_def split: option.splits)

lemma renderGroup_events:
  "events (renderGroup c) =
     (case commitHandler c of
        None \<Rightarrow> events c @ [RenderAll]
      | Some h \<Rightarrow> events c @ CommitHandlerCalled False #
          map (\<lambda>cb. case cb of Callback e r \<Rightarrow> if truthy e then ConsoleLog e else RenderAll)
            (h False))"
  by (simp add: renderGroup_def fold_commit_callback emit_def split: option.splits)

text \<open>
  C6. The claim has \<^verbatim>\<open>renderGroup\<close> call the commit handler with the flag \<open>true\<close>, as the
  documentation of \<^verbatim>\<open>commitHandler\<close> does ("a flag indicating whether this is a render (true)
  or a redraw (false)"). The code passes \<open>false\<close>: a handler that accepts renders and rejects
  redraws rejects the call made by \<^verbatim>\<open>renderGroup\<close>, the error is logged and \<^verbatim>\<open>renderAll\<close> is
  not called.
\<close>

theorem renderGroup_passes_false:
  "events (renderGroup ((new_chart ''1'')\<lparr>commitHandler := Some fails_on_redraw\<rparr>)) =
     [CommitHandlerCalled False, ConsoleLog (JStr ''redraw rejected'')]"
  by (simp add: renderGroup_def new_chart_def emit_def fails_on_redraw_def truthy_def)

section \<open>Ordered groups: properties\<close>

text \<open>In the language, \<^verbatim>\<open>a < b\<close> implies \<^verbatim>\<open>a <= b\<close>.\<close>

lemma string_less_asym: "string_less a b \<Longrightarrow> \<not> string_less b a"
  by (induction a b rule: string_less.induct) (auto split: if_splits)

lemma xnum_less_asym: "xnum_less a b = Some True \<Longrightarrow> xnum_less b a = Some False"
  by (cases a; cases b) auto

lemma to_primitive_not_array: "to_primitive v \<noteq> JArr xs b"
  by (cases v) auto

lemma less_imp_less_eq_val:
  fixes a b :: "'b val"
  shows "a < b \<Longrightarrow> a \<le> b"
  unfolding less_val_def less_eq_val_def compare_less_def
  by (cases "to_primitive a"; cases "to_primitive b")
     (auto dest: string_less_asym xnum_less_asym)

lemma less_not_greater_eq_val:
  fixes a b :: "'b val"
  shows "a < b \<Longrightarrow> \<not> a \<ge> b"
  by (simp add: less_val_def less_eq_val_def)

lemma sign_cases: "v \<noteq> NaN \<Longrightarrow> negative v \<or> is_zero v \<or> positive v"
  by (cases v) auto

lemma sign_exclusive:
  "negative v \<Longrightarrow> \<not> is_zero v" "negative v \<Longrightarrow> \<not> positive v" "is_zero v \<Longrightarrow> \<not> positive v"
  by (cases v; simp)+

lemma negative_ascending: "negative (ascending a b) \<longleftrightarrow> a < b"
  by (simp add: ascending_def)

lemma positive_ascending: "positive (ascending a b) \<longleftrightarrow> \<not> a < b \<and> b < a"
  by (simp add: ascending_def)

lemma is_zero_ascending: "is_zero (ascending a b) \<longleftrightarrow> \<not> a < b \<and> \<not> b < a \<and> b \<le> a"
  by (simp add: ascending_def)

lemma ascending_NaN: "ascending a b = NaN \<longleftrightarrow> \<not> a < b \<and> \<not> b < a \<and> \<not> b \<le> a"
  by (simp add: ascending_def)

text \<open>
  For a consistent comparator, "less" one way is "greater" the other way, and "not greater"
  is transitive.
\<close>

lemma consistent_flip:
  assumes c: "consistent cmp S" and a: "a \<in> S" and b: "b \<in> S"
  shows "negative (cmp a b) \<longleftrightarrow> positive (cmp b a)"
proof
  assume n: "negative (cmp a b)"
  have "\<not> negative (cmp b a)"
  proof
    assume "negative (cmp b a)"
    with n c a b have "negative (cmp a a)" unfolding consistent_def by blast
    moreover have "is_zero (cmp a a)" using c a unfolding consistent_def by blast
    ultimately show False by (simp add: sign_exclusive)
  qed
  moreover have "\<not> is_zero (cmp b a)"
  proof
    assume "is_zero (cmp b a)"
    then have "is_zero (cmp a b)" using c a b unfolding consistent_def by blast
    with n show False by (simp add: sign_exclusive)
  qed
  moreover have "cmp b a \<noteq> NaN" using c a b unfolding consistent_def by blast
  ultimately show "positive (cmp b a)" using sign_cases by blast
next
  assume p: "positive (cmp b a)"
  have "\<not> positive (cmp a b)"
  proof
    assume "positive (cmp a b)"
    with p c a b have "positive (cmp b b)" unfolding consistent_def by blast
    moreover have "is_zero (cmp b b)" using c b unfolding consistent_def by blast
    ultimately show False by (simp add: sign_exclusive)
  qed
  moreover have "\<not> is_zero (cmp a b)"
  proof
    assume "is_zero (cmp a b)"
    then have "is_zero (cmp b a)" using c a b unfolding consistent_def by blast
    with p show False by (simp add: sign_exclusive)
  qed
  moreover have "cmp a b \<noteq> NaN" using c a b unfolding consistent_def by blast
  ultimately show "negative (cmp a b)" using sign_cases by blast
qed


lemma consistent_subset: "consistent cmp S \<Longrightarrow> T \<subseteq> S \<Longrightarrow> consistent cmp T"
  unfolding consistent_def by (meson subsetD)

lemma consistent_not_positive_trans:
  assumes c: "consistent cmp S" and a: "a \<in> S" and b: "b \<in> S" and d: "d \<in> S"
    and ab: "\<not> positive (cmp a b)" and bd: "\<not> positive (cmp b d)"
  shows "\<not> positive (cmp a d)"
proof
  assume p: "positive (cmp a d)"
  then have nda: "negative (cmp d a)" using consistent_flip[OF c d a] by simp
  have nn: "\<And>x y. x \<in> S \<Longrightarrow> y \<in> S \<Longrightarrow> cmp x y \<noteq> NaN"
    using c unfolding consistent_def by blast
  have sym: "\<And>x y. x \<in> S \<Longrightarrow> y \<in> S \<Longrightarrow> is_zero (cmp x y) \<Longrightarrow> is_zero (cmp y x)"
    using c unfolding consistent_def by blast
  have zt: "\<And>x y z. x \<in> S \<Longrightarrow> y \<in> S \<Longrightarrow> z \<in> S \<Longrightarrow> is_zero (cmp x y) \<Longrightarrow> is_zero (cmp y z)
      \<Longrightarrow> is_zero (cmp x z)"
    using c unfolding consistent_def by blast
  have nt: "\<And>x y z. x \<in> S \<Longrightarrow> y \<in> S \<Longrightarrow> z \<in> S \<Longrightarrow> negative (cmp x y) \<Longrightarrow> negative (cmp y z)
      \<Longrightarrow> negative (cmp x z)"
    using c unfolding consistent_def by blast
  from ab nn[OF a b] sign_cases have ab': "negative (cmp a b) \<or> is_zero (cmp a b)" by blast
  from bd nn[OF b d] sign_cases have bd': "negative (cmp b d) \<or> is_zero (cmp b d)" by blast
  from ab' show False
  proof
    assume nab: "negative (cmp a b)"
    from nt[OF d a b nda nab] have ndb: "negative (cmp d b)" .
    from bd' show False
    proof
      assume "negative (cmp b d)"
      from nt[OF b d b this ndb] have "negative (cmp b b)" .
      moreover have "is_zero (cmp b b)" using c b unfolding consistent_def by blast
      ultimately show False by (simp add: sign_exclusive)
    next
      assume "is_zero (cmp b d)"
      from sym[OF b d this] ndb show False by (simp add: sign_exclusive)
    qed
  next
    assume zab: "is_zero (cmp a b)"
    from bd' show False
    proof
      assume nbd: "negative (cmp b d)"
      from nt[OF b d a nbd nda] have "negative (cmp b a)" .
      with sym[OF a b zab] show False by (simp add: sign_exclusive)
    next
      assume "is_zero (cmp b d)"
      from zt[OF a b d zab this] p show False by (simp add: sign_exclusive)
    qed
  qed
qed

text \<open>The insertion sort is a sort that the language allows.\<close>

lemma set_insert_by: "set (insert_by cmp x ys) = insert x (set ys)"
  by (induction ys) auto

lemma mset_insert_by: "mset (insert_by cmp x ys) = add_mset x (mset ys)"
  by (induction ys) auto

lemma mset_sort_by: "mset (sort_by cmp xs) = mset xs"
  by (induction xs) (simp_all add: sort_by_def mset_insert_by)

lemma set_sort_by: "set (sort_by cmp xs) = set xs"
  by (induction xs) (simp_all add: sort_by_def set_insert_by)

lemma sorted_insert_by:
  assumes "consistent cmp (insert x (set ys))"
    and "sorted_wrt (\<lambda>a b. \<not> positive (cmp a b)) ys"
  shows "sorted_wrt (\<lambda>a b. \<not> positive (cmp a b)) (insert_by cmp x ys)"
  using assms
proof (induction ys)
  case Nil
  then show ?case by simp
next
  case (Cons y ys)
  note c = Cons.prems(1)
  have sub: "consistent cmp (insert x (set ys))"
    by (rule consistent_subset[OF c]) auto
  have sys: "sorted_wrt (\<lambda>a b. \<not> positive (cmp a b)) ys"
    and yle: "\<forall>z \<in> set ys. \<not> positive (cmp y z)"
    using Cons.prems(2) by simp_all
  have xin: "x \<in> insert x (set (y # ys))" and yin: "y \<in> insert x (set (y # ys))"
    by simp_all
  show ?case
  proof (cases "positive (cmp x y)")
    case True
    then have "negative (cmp y x)" using consistent_flip[OF c yin xin] by simp
    then have "\<not> positive (cmp y x)" by (simp add: sign_exclusive)
    with True yle Cons.IH[OF sub sys] show ?thesis
      by (simp add: set_insert_by)
  next
    case False
    have "\<forall>z \<in> set ys. \<not> positive (cmp x z)"
    proof
      fix z assume z: "z \<in> set ys"
      then have zin: "z \<in> insert x (set (y # ys))" by simp
      from yle z have "\<not> positive (cmp y z)" by simp
      from consistent_not_positive_trans[OF c xin yin zin False this]
      show "\<not> positive (cmp x z)" .
    qed
    with False Cons.prems(2) show ?thesis by simp
  qed
qed

lemma sorted_sort_by:
  assumes "consistent cmp (set xs)"
  shows "sorted_wrt (\<lambda>a b. \<not> positive (cmp a b)) (sort_by cmp xs)"
  using assms
proof (induction xs)
  case Nil
  then show ?case by (simp add: sort_by_def)
next
  case (Cons x xs)
  have sub: "consistent cmp (set xs)"
    by (rule consistent_subset[OF Cons.prems]) auto
  have c: "consistent cmp (insert x (set (sort_by cmp xs)))"
    using Cons.prems by (simp add: set_sort_by)
  have "sorted_wrt (\<lambda>a b. \<not> positive (cmp a b)) (insert_by cmp x (sort_by cmp xs))"
    by (rule sorted_insert_by[OF c Cons.IH[OF sub]])
  then show ?case by (simp add: sort_by_def)
qed

lemma sort_by_ok: "sort_ok sort_by"
  unfolding sort_ok_def in_sorted_order_def
proof (intro allI conjI impI)
  fix cmp :: "'a \<Rightarrow> 'a \<Rightarrow> jsnum" and xs
  show "mset (sort_by cmp xs) = mset xs" by (rule mset_sort_by)
  assume c: "consistent cmp (set xs)"
  have "sorted_wrt (\<lambda>a b. \<not> positive (cmp a b)) (sort_by cmp xs)"
    by (rule sorted_sort_by[OF c])
  then show "sorted_wrt (\<lambda>x y. \<not> negative (cmp y x)) (sort_by cmp xs)"
  proof (rule sorted_wrt_mono_rel[rotated])
    fix a b assume "a \<in> set (sort_by cmp xs)" "b \<in> set (sort_by cmp xs)"
      and np: "\<not> positive (cmp a b)"
    then have "a \<in> set xs" "b \<in> set xs" by (simp_all add: set_sort_by)
    from consistent_flip[OF c this(2) this(1)] np show "\<not> negative (cmp b a)" by simp
  qed
qed

text \<open>On ordered keys, \<^verbatim>\<open>ascending\<close> under an accessor is a consistent comparator.\<close>

lemma less_asym_val:
  fixes a b :: "'b val"
  shows "a < b \<Longrightarrow> \<not> b < a"
  using less_imp_less_eq_val[of a b] by (simp add: less_val_def less_eq_val_def)

lemma keys_ordered_consistent:
  fixes f :: "'a \<Rightarrow> datum"
  assumes ko: "keys_ordered (f ` S)"
  shows "consistent (\<lambda>a b. ascending (f a) (f b)) S"
proof -
  have tot: "\<And>a b. a \<in> S \<Longrightarrow> b \<in> S \<Longrightarrow> f a < f b \<or> f b \<le> f a"
    using ko unfolding keys_ordered_def by blast
  have tr: "\<And>a b c. a \<in> S \<Longrightarrow> b \<in> S \<Longrightarrow> c \<in> S \<Longrightarrow> f a \<le> f b \<Longrightarrow> f b \<le> f c \<Longrightarrow> f a \<le> f c"
    using ko unfolding keys_ordered_def by blast
  have excl: "\<And>x y :: datum. x < y \<Longrightarrow> \<not> y \<le> x"
    by (simp add: less_val_def less_eq_val_def)
  show ?thesis
    unfolding consistent_def
  proof (intro conjI ballI impI)
    fix a b assume "a \<in> S" "b \<in> S"
    from tot[OF this] show "ascending (f a) (f b) \<noteq> NaN"
      by (auto simp: ascending_NaN)
  next
    fix a assume a: "a \<in> S"
    from tot[OF a a] less_asym_val[of "f a" "f a"] show "is_zero (ascending (f a) (f a))"
      by (auto simp: is_zero_ascending)
  next
    fix a b assume a: "a \<in> S" and b: "b \<in> S" and z: "is_zero (ascending (f a) (f b))"
    from z tot[OF b a] show "is_zero (ascending (f b) (f a))"
      by (auto simp: is_zero_ascending)
  next
    fix a b c assume a: "a \<in> S" and b: "b \<in> S" and c: "c \<in> S"
      and z1: "is_zero (ascending (f a) (f b))" and z2: "is_zero (ascending (f b) (f c))"
    from z1 tot[OF b a] have ab: "f a \<le> f b" "f b \<le> f a" by (auto simp: is_zero_ascending)
    from z2 tot[OF c b] have bc: "f b \<le> f c" "f c \<le> f b" by (auto simp: is_zero_ascending)
    have ac: "f a \<le> f c" by (rule tr[OF a b c ab(1) bc(1)])
    have ca: "f c \<le> f a" by (rule tr[OF c b a bc(2) ab(2)])
    from ac ca excl show "is_zero (ascending (f a) (f c))"
      by (auto simp: is_zero_ascending)
  next
    fix a b c assume a: "a \<in> S" and b: "b \<in> S" and c: "c \<in> S"
      and n1: "negative (ascending (f a) (f b))" and n2: "negative (ascending (f b) (f c))"
    from n1 have ab: "f a < f b" by (simp add: negative_ascending)
    from n2 have bc: "f b < f c" by (simp add: negative_ascending)
    have "\<not> f c \<le> f a"
    proof
      assume "f c \<le> f a"
      from tr[OF c a b this less_imp_less_eq_val[OF ab]] excl[OF bc] show False by simp
    qed
    with tot[OF a c] show "negative (ascending (f a) (f c))"
      by (simp add: negative_ascending)
  next
    fix a b c assume a: "a \<in> S" and b: "b \<in> S" and c: "c \<in> S"
      and p1: "positive (ascending (f a) (f b))" and p2: "positive (ascending (f b) (f c))"
    from p1 have ba: "f b < f a" by (simp add: positive_ascending)
    from p2 have cb: "f c < f b" by (simp add: positive_ascending)
    have "\<not> f a \<le> f c"
    proof
      assume "f a \<le> f c"
      from tr[OF b a c less_imp_less_eq_val[OF ba] this] excl[OF cb] show False by simp
    qed
    with tot[OF c a] less_asym_val[of "f c" "f a"] show "positive (ascending (f a) (f c))"
      by (auto simp: positive_ascending)
  qed
qed

lemma in_sorted_order_ascending_by:
  fixes f :: "'a \<Rightarrow> datum"
  assumes ko: "keys_ordered (f ` set ys)"
    and so: "in_sorted_order (\<lambda>a b. ascending (f a) (f b)) ys"
  shows "ascending_by f ys"
  unfolding ascending_by_def
  using so unfolding in_sorted_order_def
proof (rule sorted_wrt_mono_rel[rotated])
  fix a b assume a: "a \<in> set ys" and b: "b \<in> set ys"
    and n: "\<not> negative (ascending (f b) (f a))"
  have "f b < f a \<or> f a \<le> f b"
    using ko a b unfolding keys_ordered_def by blast
  with n show "f a \<le> f b" by (simp add: negative_ascending)
qed

text \<open>
  C10. For every chart, every well-formed store and every array \<open>data\<close> in it,
  \<^verbatim>\<open>_computeOrderedGroups\<close> returns a new array, at an address that was free and differs from
  \<open>data\<close>, and leaves the input array and every other array as they were, whatever the
  engine's sort does. With a sort that meets the language's contract the new array holds a
  permutation of the input, and when the keys of the input under the chart's ordering
  accessor are ordered, it is sorted ascending by the accessor.
\<close>

theorem computeOrderedGroups_permuted_copy:
  assumes "store_ok h" and "arrays h data = Some xs"
  shows "\<exists>h' r ys. computeOrderedGroups srt c h data = Some (h', r)
           \<and> r \<noteq> data \<and> arrays h r = None
           \<and> arrays h' r = Some ys
           \<and> arrays h' data = Some xs
           \<and> (\<forall>a. a \<noteq> r \<longrightarrow> arrays h' a = arrays h a)
           \<and> (sort_ok srt \<longrightarrow>
                mset ys = mset xs
                \<and> (keys_ordered (ordering c ` set xs) \<longrightarrow> ascending_by (ordering c) ys))"
proof -
  let ?cmp = "\<lambda>a b. ascending (ordering c a) (ordering c b)"
  let ?ys = "srt ?cmp xs"
  have lt: "data < next_free h"
    using assms by (auto simp: store_ok_def)
  have fresh: "arrays h (next_free h) = None"
    using assms(1) by (auto simp: store_ok_def)
  have sorted: "mset ?ys = mset xs
      \<and> (keys_ordered (ordering c ` set xs) \<longrightarrow> ascending_by (ordering c) ?ys)"
    if ok: "sort_ok srt"
  proof (intro conjI impI)
    show ms: "mset ?ys = mset xs"
      using ok unfolding sort_ok_def by blast
    then have st: "set ?ys = set xs" by (rule mset_eq_setD)
    assume ko: "keys_ordered (ordering c ` set xs)"
    then have "consistent ?cmp (set xs)" by (rule keys_ordered_consistent)
    then have "in_sorted_order ?cmp ?ys"
      using ok unfolding sort_ok_def by blast
    moreover have "keys_ordered (ordering c ` set ?ys)" using ko st by simp
    ultimately show "ascending_by (ordering c) ?ys"
      by (rule in_sorted_order_ascending_by[rotated])
  qed
  have res: "computeOrderedGroups srt c h data =
      Some (h\<lparr>arrays := (arrays h)(next_free h \<mapsto> ?ys), next_free := Suc (next_free h)\<rparr>,
            next_free h)"
    using assms(2) by (simp add: computeOrderedGroups_def array_from_def array_sort_def)
  show ?thesis
    unfolding res using lt fresh assms(2) sorted by simp
qed

lemma store0_keys:
  "keys_ordered (ordering (new_chart ''1'') `
      set [(JStr ''b'', JNum (Fin 2)), (JStr ''c'', JNum (Fin 1)), (JStr ''a'', JNum (Fin 3))])"
  by (simp add: keys_ordered_def new_chart_def less_eq_val_def less_val_def compare_less_def)

theorem computeOrderedGroups_permuted_copy_witness:
  "store_ok store0 \<and> sort_ok sort_by
   \<and> keys_ordered (ordering (new_chart ''1'') `
        set [(JStr ''b'', JNum (Fin 2)), (JStr ''c'', JNum (Fin 1)), (JStr ''a'', JNum (Fin 3))])
   \<and> (\<exists>h'. computeOrderedGroups sort_by (new_chart ''1'') store0 0 = Some (h', 1)
        \<and> arrays h' 1 =
            Some [(JStr ''a'', JNum (Fin 3)), (JStr ''b'', JNum (Fin 2)), (JStr ''c'', JNum (Fin 1))]
        \<and> arrays h' 0 =
            Some [(JStr ''b'', JNum (Fin 2)), (JStr ''c'', JNum (Fin 1)), (JStr ''a'', JNum (Fin 3))]
        \<and> ascending_by (ordering (new_chart ''1''))
            [(JStr ''a'', JNum (Fin 3)), (JStr ''b'', JNum (Fin 2)), (JStr ''c'', JNum (Fin 1))])"
proof -
  have ok: "store_ok store0"
    by (simp add: store_ok_def store0_def)
  have at: "arrays store0 0 =
      Some [(JStr ''b'', JNum (Fin 2)), (JStr ''c'', JNum (Fin 1)), (JStr ''a'', JNum (Fin 3))]"
    by (simp add: store0_def)
  obtain h' r ys where res: "computeOrderedGroups sort_by (new_chart ''1'') store0 0 = Some (h', r)"
    "arrays h' r = Some ys"
    "arrays h' 0 = Some [(JStr ''b'', JNum (Fin 2)), (JStr ''c'', JNum (Fin 1)), (JStr ''a'', JNum (Fin 3))]"
    "ascending_by (ordering (new_chart ''1'')) ys"
    using computeOrderedGroups_permuted_copy[OF ok at, of sort_by "new_chart ''1''"]
      sort_by_ok store0_keys by blast
  have ev: "computeOrderedGroups sort_by (new_chart ''1'') store0 0 =
      Some (store0\<lparr>arrays := (arrays store0)(1 \<mapsto>
              [(JStr ''a'', JNum (Fin 3)), (JStr ''b'', JNum (Fin 2)), (JStr ''c'', JNum (Fin 1))]),
            next_free := 2\<rparr>, 1)"
    by (simp add: computeOrderedGroups_def array_from_def array_sort_def store0_def sort_by_def
        ascending_def new_chart_def less_val_def less_eq_val_def compare_less_def)
  from res(1) ev have r: "r = 1"
    and h': "h' = store0\<lparr>arrays := (arrays store0)(1 \<mapsto>
              [(JStr ''a'', JNum (Fin 3)), (JStr ''b'', JNum (Fin 2)), (JStr ''c'', JNum (Fin 1))]),
            next_free := 2\<rparr>"
    by auto
  from res(2) r h' have ys:
    "ys = [(JStr ''a'', JNum (Fin 3)), (JStr ''b'', JNum (Fin 2)), (JStr ''c'', JNum (Fin 1))]"
    by simp
  from ok sort_by_ok store0_keys res ys r show ?thesis by simp
qed

text \<open>
  The claim as written has the result sorted for every input. With the keys \<^verbatim>\<open>NaN\<close> and 1
  the comparator answers \<^verbatim>\<open>NaN\<close>, the insertion sort (as any sort that reads \<^verbatim>\<open>NaN\<close> as
  "equal") returns the records in the order of the input, and neither that order nor the
  other one is ascending, since \<^verbatim>\<open>NaN <= 1\<close> and \<^verbatim>\<open>1 <= NaN\<close> are both false: no engine can
  return a sorted permutation of this input.
\<close>

theorem computeOrderedGroups_NaN_key_counterexample:
  "computeOrderedGroups sort_by (new_chart ''1'') store_nan 0 =
     Some (store_nan\<lparr>arrays := (arrays store_nan)(1 \<mapsto>
              [(JNum NaN, JNum (Fin 1)), (JNum (Fin 1), JNum (Fin 2))]),
            next_free := 2\<rparr>, 1)
   \<and> \<not> ascending_by (ordering (new_chart ''1''))
         [(JNum NaN, JNum (Fin 1)), (JNum (Fin 1), JNum (Fin 2))]
   \<and> \<not> ascending_by (ordering (new_chart ''1''))
         [(JNum (Fin 1), JNum (Fin 2)), (JNum NaN, JNum (Fin 1))]"
  by (simp add: computeOrderedGroups_def array_from_def array_sort_def store_nan_def sort_by_def
      ascending_def ascending_by_def new_chart_def less_val_def less_eq_val_def compare_less_def)

section \<open>Sunburst ring sizes: properties\<close>

lemma render_checked:
  assumes "mandatoryAttributesList c = Some [''dimension'', ''group'']"
    and "is_set (conf_dimension c)" and "is_set (group c)"
  shows "case doRender c of
           Some e \<Rightarrow> render (with_dimension_accessor c) = Inl e
         | None \<Rightarrow> (\<exists>c'. render (with_dimension_accessor c) = Inr c')"
  using assms
  by (auto simp: render_def Let_def emit_def checkForMandatoryAttributes_def attribute_def
      with_dimension_accessor_def split: option.splits)

lemma check_fractions_BadArgument:
  "check_fractions tol n r = Some e \<Longrightarrow> \<exists>m. e = BadArgumentException m"
  by (auto simp: check_fractions_def split: fractions.splits if_splits)

lemma check_fractions_fails:
  "(check_fractions tol n r \<noteq> None) \<longleftrightarrow>
     (case r of
        NotAnArray \<Rightarrow> True
      | Fractions ps \<Rightarrow> length ps \<noteq> n \<or> \<bar>sum_list ps - 1\<bar> > tol)"
  by (auto simp: check_fractions_def split: fractions.splits)

text \<open>
  C7. For every sunburst chart with the default mandatory attributes set, configured with
  a percentage function \<open>f\<close>: \<^verbatim>\<open>render\<close> throws a BadArgument error exactly when \<open>f\<close> applied
  to the ring count returns a non-array, an array whose length is not the ring count, or
  fractions whose sum differs from 1 by more than the tolerance, and returns otherwise;
  configuring the function throws nothing and leaves the chart as it was; and after the
  default policy is configured again \<^verbatim>\<open>render\<close> returns.
\<close>

theorem relativeRingSizes_validated_at_render:
  assumes "mandatoryAttributesList (base sb) = Some [''dimension'', ''group'']"
    and "is_set (conf_dimension (base sb))" and "is_set (group (base sb))"
  shows "((\<exists>m. sunburst_render (set_ringSizes (RelativeRingSizes f) sb)
                 = Inl (BadArgumentException m))
          \<longleftrightarrow> (case f (ringCount sb) of
                 NotAnArray \<Rightarrow> True
               | Fractions ps \<Rightarrow>
                   length ps \<noteq> ringCount sb \<or> \<bar>sum_list ps - 1\<bar> > tolerance sb))
       \<and> ((\<exists>sb'. sunburst_render (set_ringSizes (RelativeRingSizes f) sb) = Inr sb')
          \<longleftrightarrow> (case f (ringCount sb) of
                 NotAnArray \<Rightarrow> False
               | Fractions ps \<Rightarrow>
                   length ps = ringCount sb \<and> \<bar>sum_list ps - 1\<bar> \<le> tolerance sb))
       \<and> base (set_ringSizes (RelativeRingSizes f) sb) = base sb
       \<and> (\<exists>sb'. sunburst_render
                  (set_ringSizes DefaultRingSizes (set_ringSizes (RelativeRingSizes f) sb))
                  = Inr sb')"
proof -
  define sr where "sr = set_ringSizes (RelativeRingSizes f) sb"
  define c where "c = (base sr)\<lparr>doRender := ring_sizes_error sr\<rparr>"
  have pre: "mandatoryAttributesList c = Some [''dimension'', ''group'']"
    "is_set (conf_dimension c)" "is_set (group c)"
    using assms by (simp_all add: c_def sr_def set_ringSizes_def)
  have dr: "doRender c = check_fractions (tolerance sb) (ringCount sb) (f (ringCount sb))"
    by (simp add: c_def sr_def set_ringSizes_def ring_sizes_error_def)
  have sren: "sunburst_render sr =
      (case render (with_dimension_accessor c) of
         Inl e \<Rightarrow> Inl e | Inr c' \<Rightarrow> Inr (sr\<lparr>base := c'\<rparr>))"
    by (simp add: sunburst_render_def c_def)
  note rc = render_checked[OF pre]
  have 1: "(\<exists>m. sunburst_render sr = Inl (BadArgumentException m))
          \<longleftrightarrow> check_fractions (tolerance sb) (ringCount sb) (f (ringCount sb)) \<noteq> None"
    using rc check_fractions_BadArgument[of "tolerance sb" "ringCount sb" "f (ringCount sb)"]
    by (auto simp: sren dr split: option.splits sum.splits)
  have 2: "(\<exists>sb'. sunburst_render sr = Inr sb')
          \<longleftrightarrow> check_fractions (tolerance sb) (ringCount sb) (f (ringCount sb)) = None"
    using rc by (auto simp: sren dr split: option.splits sum.splits)
  define sd where "sd = set_ringSizes DefaultRingSizes sr"
  define cd where "cd = (base sd)\<lparr>doRender := ring_sizes_error sd\<rparr>"
  have pred: "mandatoryAttributesList cd = Some [''dimension'', ''group'']"
    "is_set (conf_dimension cd)" "is_set (group cd)" "doRender cd = None"
    using assms by (simp_all add: cd_def sd_def sr_def set_ringSizes_def ring_sizes_error_def)
  have 3: "\<exists>sb'. sunburst_render sd = Inr sb'"
    using render_checked[OF pred(1-3)] pred(4)
    by (auto simp: sunburst_render_def cd_def[symmetric])
  have 4: "base sr = base sb"
    by (simp add: sr_def set_ringSizes_def)
  show ?thesis
    using 1 2 3 4 check_fractions_fails[of "tolerance sb" "ringCount sb" "f (ringCount sb)"]
    unfolding sr_def sd_def
    by (auto split: fractions.splits)
qed

theorem relativeRingSizes_validated_at_render_witness:
  "(\<exists>m. sunburst_render (set_ringSizes (RelativeRingSizes functionReturnsNonArray) sunburst0)
          = Inl (BadArgumentException m))
   \<and> (\<exists>m. sunburst_render (set_ringSizes (RelativeRingSizes tooManyPercentageValues) sunburst0)
          = Inl (BadArgumentException m))
   \<and> (\<exists>m. sunburst_render (set_ringSizes (RelativeRingSizes percentagesSumNot1) sunburst0)
          = Inl (BadArgumentException m))
   \<and> (\<exists>sb'. sunburst_render (set_ringSizes (RelativeRingSizes specificPercentages) sunburst0)
          = Inr sb')
   \<and> (\<exists>sb'. sunburst_render
          (set_ringSizes DefaultRingSizes
             (set_ringSizes (RelativeRingSizes percentagesSumNot1) sunburst0)) = Inr sb')"
proof -
  have pre: "mandatoryAttributesList (base sunburst0) = Some [''dimension'', ''group'']"
    "is_set (conf_dimension (base sunburst0))" "is_set (group (base sunburst0))"
    by (simp_all add: sunburst0_def chart0_def new_chart_def)
  have n: "ringCount sunburst0 = 3" "tolerance sunburst0 = 1 / 1000000"
    by (simp_all add: sunburst0_def)
  show ?thesis
    using relativeRingSizes_validated_at_render[OF pre, of functionReturnsNonArray]
      relativeRingSizes_validated_at_render[OF pre, of tooManyPercentageValues]
      relativeRingSizes_validated_at_render[OF pre, of percentagesSumNot1]
      relativeRingSizes_validated_at_render[OF pre, of specificPercentages]
    by (simp add: n functionReturnsNonArray_def tooManyPercentageValues_def
        percentagesSumNot1_def specificPercentages_def)
qed

end
